theory Spec2Isabelle
  imports Main
begin

section \<open>Data model (PomoTimer.ts)\<close>

text \<open>
  The enum \<^verbatim>\<open>TimerState\<close> of PomoTimer.ts, with its five values in the order of
  the source. The three modes and the two execution states share this one type.
\<close>

datatype TimerState = Work | ShortBreak | LongBreak | Paused | Idle

record Session =
  date :: string
  type :: TimerState
  duration :: int

record Task =
  taskText :: string
  completed :: bool

text \<open>
  The interface \<^verbatim>\<open>PomodoroSettings\<close>. The numeric fields are JavaScript numbers;
  they are modelled as integers (the sliders of the settings tab only produce
  integers), of either sign, since nothing in the code checks them.
\<close>

record PomodoroSettings =
  workTime :: int
  shortBreakTime :: int
  longBreakTime :: int
  longBreakInterval :: int
  autoStartBreaks :: bool
  autoStartPomodoros :: bool
  showDesktopNotification :: bool
  playSound :: bool
  showInStatusBar :: bool
  sessions :: "Session list"
  tasks :: "Task list"

definition DEFAULT_SETTINGS :: PomodoroSettings where
  "DEFAULT_SETTINGS =
     \<lparr> workTime = 25, shortBreakTime = 5, longBreakTime = 15, longBreakInterval = 4,
       autoStartBreaks = False, autoStartPomodoros = False,
       showDesktopNotification = True, playSound = True, showInStatusBar = False,
       sessions = [], tasks = [] \<rparr>"

section \<open>The timer engine (class PomoTimer)\<close>

text \<open>
  The three callbacks handed to the constructor are the engine's only output. A call of
  \<^verbatim>\<open>onTick(r, t)\<close>, \<^verbatim>\<open>onStateChange(s)\<close> or \<^verbatim>\<open>onTimerComplete()\<close> is a
  value of type \<open>notification\<close>, with exactly the arguments the source passes.
\<close>

datatype notification =
    OnTick int int
  | OnStateChange TimerState
  | OnTimerComplete

text \<open>
  A callback runs synchronously inside the engine's method and can call the getters
  (\<^verbatim>\<open>updateUI\<close> calls \<^verbatim>\<open>getState\<close>). An \<open>emission\<close> is a notification together
  with what \<^verbatim>\<open>getState()\<close>, \<^verbatim>\<open>getRemainingTime()\<close> and \<^verbatim>\<open>getTotalTime()\<close>
  return at the moment of the call, so that the order of state changes and callbacks
  within one method is part of the model.
\<close>

record emission =
  notif :: notification
  seenState :: TimerState
  seenRemaining :: int
  seenTotal :: int

text \<open>
  The fields of the class, and with them the part of the browser the class
  acts on: \<open>intervals\<close> is the table of the handles that \<^verbatim>\<open>window.setInterval\<close> has
  returned and \<^verbatim>\<open>clearInterval\<close> has not yet cancelled, \<open>nextHandle\<close> the next handle
  the browser gives out. \<open>intervalId = None\<close> is \<^verbatim>\<open>null\<close>.
\<close>

record PomoTimer =
  state :: TimerState
  prePauseState :: TimerState
  remainingTime :: int
  totalTime :: int
  intervalId :: "nat option"
  settings :: PomodoroSettings
  intervals :: "nat list"
  nextHandle :: nat

definition newTimer :: "PomodoroSettings \<Rightarrow> PomoTimer" where
  "newTimer s =
     \<lparr> state = Idle, prePauseState = Idle, remainingTime = 0, totalTime = 0,
       intervalId = None, settings = s, intervals = [], nextHandle = 1 \<rparr>"

definition emit :: "notification \<Rightarrow> PomoTimer \<Rightarrow> emission" where
  "emit n t =
     \<lparr> notif = n, seenState = state t, seenRemaining = remainingTime t,
       seenTotal = totalTime t \<rparr>"

text \<open>JavaScript truthiness of \<^verbatim>\<open>number | null\<close>: \<^verbatim>\<open>null\<close> and \<^verbatim>\<open>0\<close> are falsy.\<close>

definition truthy :: "nat option \<Rightarrow> bool" where
  "truthy h = (case h of None \<Rightarrow> False | Some n \<Rightarrow> n \<noteq> 0)"

definition clearInterval :: "nat option \<Rightarrow> PomoTimer \<Rightarrow> PomoTimer" where
  "clearInterval h t =
     (case h of None \<Rightarrow> t | Some n \<Rightarrow> t\<lparr>intervals := removeAll n (intervals t)\<rparr>)"

definition setInterval :: "PomoTimer \<Rightarrow> nat \<times> PomoTimer" where
  "setInterval t =
     (nextHandle t,
      t\<lparr>intervals := nextHandle t # intervals t, nextHandle := Suc (nextHandle t)\<rparr>)"

definition updateSettings :: "PomodoroSettings \<Rightarrow> PomoTimer \<Rightarrow> PomoTimer \<times> emission list" where
  "updateSettings s t = (t\<lparr>settings := s\<rparr>, [])"

text \<open>
  \<^verbatim>\<open>start(state)\<close>. The \<^verbatim>\<open>switch\<close> has no default branch: for any other value
  of \<^verbatim>\<open>this.state\<close> the time is left as it is.
\<close>

definition start :: "TimerState \<Rightarrow> PomoTimer \<Rightarrow> PomoTimer \<times> emission list" where
  "start s t =
     (if s = Idle \<or> s = Paused then (t, [])
      else
        let t1 = t\<lparr>state := s\<rparr>;
            t2 = (if remainingTime t1 = 0 then
                    (let t' = (case state t1 of
                                 Work \<Rightarrow> t1\<lparr>remainingTime := workTime (settings t1) * 60\<rparr>
                               | ShortBreak \<Rightarrow> t1\<lparr>remainingTime := shortBreakTime (settings t1) * 60\<rparr>
                               | LongBreak \<Rightarrow> t1\<lparr>remainingTime := longBreakTime (settings t1) * 60\<rparr>
                               | _ \<Rightarrow> t1)
                     in t'\<lparr>totalTime := remainingTime t'\<rparr>)
                  else t1);
            t3 = (if truthy (intervalId t2) then clearInterval (intervalId t2) t2 else t2);
            t4 = (snd (setInterval t3))\<lparr>intervalId := Some (fst (setInterval t3))\<rparr>
        in (t4, [emit (OnTick (remainingTime t4) (totalTime t4)) t4]))"

definition pause :: "PomoTimer \<Rightarrow> PomoTimer \<times> emission list" where
  "pause t =
     (if truthy (intervalId t) \<and> state t \<noteq> Idle \<and> state t \<noteq> Paused then
        let t1 = (clearInterval (intervalId t) t)\<lparr>intervalId := None\<rparr>;
            t2 = t1\<lparr>prePauseState := state t1\<rparr>;
            t3 = t2\<lparr>state := Paused\<rparr>
        in (t3, [emit (OnTick (remainingTime t3) (totalTime t3)) t3])
      else (t, []))"

definition resume :: "PomoTimer \<Rightarrow> PomoTimer \<times> emission list" where
  "resume t = (if state t = Paused then start (prePauseState t) t else (t, []))"

definition stop :: "PomoTimer \<Rightarrow> PomoTimer \<times> emission list" where
  "stop t =
     (let t1 = (if truthy (intervalId t)
                then (clearInterval (intervalId t) t)\<lparr>intervalId := None\<rparr> else t);
          t2 = t1\<lparr>state := Idle, remainingTime := 0, totalTime := 0\<rparr>
      in (t2, [emit (OnTick (remainingTime t2) (totalTime t2)) t2]))"

definition reset :: "PomoTimer \<Rightarrow> PomoTimer \<times> emission list" where
  "reset t = (let (t1, es) = stop t in (t1, es @ [emit (OnTick 0 0) t1]))"

definition getState :: "PomoTimer \<Rightarrow> TimerState" where
  "getState t = state t"

definition getRemainingTime :: "PomoTimer \<Rightarrow> int" where
  "getRemainingTime t = remainingTime t"

definition getTotalTime :: "PomoTimer \<Rightarrow> int" where
  "getTotalTime t = totalTime t"

definition isRunning :: "PomoTimer \<Rightarrow> bool" where
  "isRunning t = (state t \<noteq> Idle \<and> state t \<noteq> Paused)"

text \<open>
  The arrow function handed to \<^verbatim>\<open>setInterval\<close> in \<^verbatim>\<open>start\<close>. It refers to the
  timer object only, so every interval runs the same body.
\<close>

definition intervalCallback :: "PomoTimer \<Rightarrow> PomoTimer \<times> emission list" where
  "intervalCallback t =
     (let t1 = t\<lparr>remainingTime := remainingTime t - 1\<rparr>;
          e1 = emit (OnTick (remainingTime t1) (totalTime t1)) t1
      in if remainingTime t1 \<le> 0 then
           (let completedState = state t1;
                (t2, es) = stop t1
            in (t2, e1 # es @ [emit OnTimerComplete t2, emit (OnStateChange completedState) t2]))
         else (t1, [e1]))"

text \<open>
  One second has passed for the interval with handle \<open>h\<close>: the browser runs the
  callback if the interval has not been cleared, and nothing otherwise.
\<close>

definition intervalFire :: "nat \<Rightarrow> PomoTimer \<Rightarrow> PomoTimer \<times> emission list" where
  "intervalFire h t = (if h \<in> set (intervals t) then intervalCallback t else (t, []))"

subsection \<open>Runs of the engine\<close>

datatype command =
    Start TimerState
  | Pause
  | Resume
  | Stop
  | Reset
  | UpdateSettings PomodoroSettings
  | IntervalFire nat

fun exec :: "command \<Rightarrow> PomoTimer \<Rightarrow> PomoTimer \<times> emission list" where
  "exec (Start s) t = start s t"
| "exec Pause t = pause t"
| "exec Resume t = resume t"
| "exec Stop t = stop t"
| "exec Reset t = reset t"
| "exec (UpdateSettings s) t = updateSettings s t"
| "exec (IntervalFire h) t = intervalFire h t"

fun run :: "command list \<Rightarrow> PomoTimer \<Rightarrow> PomoTimer" where
  "run [] t = t"
| "run (c # cs) t = run cs (fst (exec c t))"

section \<open>The plugin (class PomodoroPlugin, the revision with acknowledgment)\<close>

text \<open>
  The fields of the plugin that carry logic. \<^verbatim>\<open>this.settings\<close> is not a field of
  its own here: the plugin hands the very object \<^verbatim>\<open>this.settings\<close> to the timer's
  constructor and to every \<^verbatim>\<open>updateSettings\<close>, so plugin and timer hold one shared
  object, which lives in \<open>settings (timer p)\<close>.

  \<^verbatim>\<open>setTimeout\<close> callbacks that have been scheduled and have not run yet are counted
  per kind: \<open>autoStartTimeouts\<close> for the 1000 ms callback of \<^verbatim>\<open>advanceToNextMode\<close>,
  \<open>ackTimeouts\<close> for the 10000 ms callback of \<^verbatim>\<open>onTimerComplete\<close>. Both closures
  capture nothing but \<^verbatim>\<open>this\<close>, so pending callbacks of one kind are alike.
  \<open>notices\<close> is the list of the \<^verbatim>\<open>Notice\<close> texts shown so far. DOM elements, sound and
  desktop notifications are written but never read by the logic and are left out, and
  so are \<^verbatim>\<open>updateUI\<close>, which only writes to them, and the listeners that only show,
  hide or unpin the panel.
\<close>

record PomodoroPlugin =
  timer :: PomoTimer
  currentMode :: TimerState
  completedPomodoros :: int
  nextMode :: TimerState
  isSessionComplete :: bool
  isPanelPinned :: bool
  autoStartTimeouts :: nat
  ackTimeouts :: nat
  notices :: "string list"

definition onload :: "PomodoroSettings \<Rightarrow> PomodoroPlugin" where
  "onload s =
     \<lparr> timer = newTimer s, currentMode = Work, completedPomodoros = 0,
       nextMode = ShortBreak, isSessionComplete = False, isPanelPinned = False,
       autoStartTimeouts = 0, ackTimeouts = 0, notices = [] \<rparr>"

text \<open>
  JavaScript's \<^verbatim>\<open>a % b\<close> on integers: \<^verbatim>\<open>NaN\<close> (here \<open>None\<close>) for \<open>b = 0\<close>,
  otherwise the remainder of the truncating division, with the sign of \<open>a\<close>.
\<close>

definition jsRem :: "int \<Rightarrow> int \<Rightarrow> int option" where
  "jsRem a b = (if b = 0 then None else Some (sgn a * (\<bar>a\<bar> mod \<bar>b\<bar>)))"

definition getModeText :: "PomodoroPlugin \<Rightarrow> string" where
  "getModeText p =
     (if currentMode p = Work then ''Focus''
      else if currentMode p = ShortBreak then ''Short Break'' else ''Long Break'')"

definition advanceToNextMode :: "PomodoroPlugin \<Rightarrow> PomodoroPlugin" where
  "advanceToNextMode p =
     (let p1 = (if currentMode p = Work then
                  (let q = p\<lparr>completedPomodoros := completedPomodoros p + 1\<rparr>
                   in if jsRem (completedPomodoros q) (longBreakInterval (settings (timer q))) = Some 0
                      then q\<lparr>nextMode := LongBreak\<rparr>
                      else q\<lparr>nextMode := ShortBreak\<rparr>)
                else p\<lparr>nextMode := Work\<rparr>)
      in if (currentMode p1 = Work \<and> autoStartBreaks (settings (timer p1))) \<or>
            (currentMode p1 \<noteq> Work \<and> autoStartPomodoros (settings (timer p1)))
         then p1\<lparr>autoStartTimeouts := Suc (autoStartTimeouts p1)\<rparr>
         else p1)"

definition onTimerComplete :: "PomodoroPlugin \<Rightarrow> PomodoroPlugin" where
  "onTimerComplete p =
     (let p1 = p\<lparr>isSessionComplete := True\<rparr>;
          p2 = p1\<lparr>notices := notices p1 @ [getModeText p1 @ '' session completed!'']\<rparr>;
          p3 = advanceToNextMode p2
      in p3\<lparr>ackTimeouts := Suc (ackTimeouts p3)\<rparr>)"

text \<open>\<^verbatim>\<open>onTimerCompletion(state)\<close>, the \<^verbatim>\<open>onStateChange\<close> callback, has an empty body.\<close>

definition onTimerCompletion :: "TimerState \<Rightarrow> PomodoroPlugin \<Rightarrow> PomodoroPlugin" where
  "onTimerCompletion s p = p"

definition dispatch :: "emission \<Rightarrow> PomodoroPlugin \<Rightarrow> PomodoroPlugin" where
  "dispatch e p =
     (case notif e of
        OnTick r t \<Rightarrow> p
      | OnStateChange s \<Rightarrow> onTimerCompletion s p
      | OnTimerComplete \<Rightarrow> onTimerComplete p)"

text \<open>
  A call of a timer method from the plugin: the timer changes and its callbacks run, in
  the order of their emission. No callback of the plugin calls back into the timer or
  reads it for anything but the display, so running them after the method is the same
  as running them inside it.
\<close>

definition callTimer ::
  "(PomoTimer \<Rightarrow> PomoTimer \<times> emission list) \<Rightarrow> PomodoroPlugin \<Rightarrow> PomodoroPlugin" where
  "callTimer f p = fold dispatch (snd (f (timer p))) (p\<lparr>timer := fst (f (timer p))\<rparr>)"

definition acknowledgeSessionComplete :: "PomodoroPlugin \<Rightarrow> PomodoroPlugin" where
  "acknowledgeSessionComplete p =
     (let p1 = p\<lparr>isSessionComplete := False\<rparr>
      in if \<not> isRunning (timer p1) then p1\<lparr>currentMode := nextMode p1\<rparr> else p1)"

definition handlePauseResumeClick :: "PomodoroPlugin \<Rightarrow> PomodoroPlugin" where
  "handlePauseResumeClick p =
     (if isSessionComplete p then acknowledgeSessionComplete p
      else if isRunning (timer p) \<or> getState (timer p) = Paused then
        (if getState (timer p) = Paused then callTimer resume p else callTimer pause p)
      else callTimer (start (currentMode p)) p)"

definition handleResetClick :: "PomodoroPlugin \<Rightarrow> PomodoroPlugin" where
  "handleResetClick p = (callTimer reset p)\<lparr>isSessionComplete := False\<rparr>"

definition handleCycleModeClick :: "PomodoroPlugin \<Rightarrow> PomodoroPlugin" where
  "handleCycleModeClick p =
     (if getState (timer p) \<noteq> Idle \<or> isRunning (timer p) then
        p\<lparr>notices := notices p @ [''Reset the timer to switch modes'']\<rparr>
      else if isSessionComplete p then acknowledgeSessionComplete p
      else
        let p1 = (case currentMode p of
                    Work \<Rightarrow> p\<lparr>currentMode := ShortBreak\<rparr>
                  | ShortBreak \<Rightarrow> p\<lparr>currentMode := LongBreak\<rparr>
                  | LongBreak \<Rightarrow> p\<lparr>currentMode := Work\<rparr>
                  | _ \<Rightarrow> p)
        in p1\<lparr>notices := notices p1 @ [''Switched to '' @ getModeText p1 @ '' mode'']\<rparr>)"

text \<open>The \<^verbatim>\<open>onclick\<close> handler of the pie button.\<close>

definition pieButtonClick :: "PomodoroPlugin \<Rightarrow> PomodoroPlugin" where
  "pieButtonClick p =
     (if isSessionComplete p then acknowledgeSessionComplete p
      else p\<lparr>isPanelPinned := \<not> isPanelPinned p\<rparr>)"

text \<open>The 1000 ms callback scheduled by \<^verbatim>\<open>advanceToNextMode\<close>.\<close>

definition autoStartCallback :: "PomodoroPlugin \<Rightarrow> PomodoroPlugin" where
  "autoStartCallback p =
     (if isSessionComplete p then
        (let p1 = p\<lparr>currentMode := nextMode p\<rparr> in callTimer (start (currentMode p1)) p1)
      else p)"

text \<open>The 10000 ms callback scheduled by \<^verbatim>\<open>onTimerComplete\<close>.\<close>

definition ackTimeoutCallback :: "PomodoroPlugin \<Rightarrow> PomodoroPlugin" where
  "ackTimeoutCallback p = acknowledgeSessionComplete p"

text \<open>
  The controls of the settings tab: each writes one field of the shared settings object
  and calls \<^verbatim>\<open>saveSettings\<close>, which passes the same object to \<^verbatim>\<open>updateSettings\<close>.
\<close>

datatype control =
    WorkTimeSlider int
  | ShortBreakTimeSlider int
  | LongBreakTimeSlider int
  | LongBreakIntervalSlider int
  | AutoStartBreaksToggle bool
  | AutoStartPomodorosToggle bool
  | PlaySoundToggle bool
  | DesktopNotificationToggle bool

fun assign :: "control \<Rightarrow> PomodoroSettings \<Rightarrow> PomodoroSettings" where
  "assign (WorkTimeSlider v) s = s\<lparr>workTime := v\<rparr>"
| "assign (ShortBreakTimeSlider v) s = s\<lparr>shortBreakTime := v\<rparr>"
| "assign (LongBreakTimeSlider v) s = s\<lparr>longBreakTime := v\<rparr>"
| "assign (LongBreakIntervalSlider v) s = s\<lparr>longBreakInterval := v\<rparr>"
| "assign (AutoStartBreaksToggle b) s = s\<lparr>autoStartBreaks := b\<rparr>"
| "assign (AutoStartPomodorosToggle b) s = s\<lparr>autoStartPomodoros := b\<rparr>"
| "assign (PlaySoundToggle b) s = s\<lparr>playSound := b\<rparr>"
| "assign (DesktopNotificationToggle b) s = s\<lparr>showDesktopNotification := b\<rparr>"

definition saveSettings :: "PomodoroPlugin \<Rightarrow> PomodoroPlugin" where
  "saveSettings p = callTimer (updateSettings (settings (timer p))) p"

definition onChange :: "control \<Rightarrow> PomodoroPlugin \<Rightarrow> PomodoroPlugin" where
  "onChange c p =
     saveSettings (p\<lparr>timer := (timer p)\<lparr>settings := assign c (settings (timer p))\<rparr>\<rparr>)"

text \<open>
  \<^verbatim>\<open>onunload\<close>: \<^verbatim>\<open>removeHeaderButton()\<close>, which unpins the panel, then
  \<^verbatim>\<open>this.timer.stop()\<close>.
\<close>

definition onunload :: "PomodoroPlugin \<Rightarrow> PomodoroPlugin" where
  "onunload p = callTimer stop (p\<lparr>isPanelPinned := False\<rparr>)"

subsection \<open>Runs of the plugin\<close>

text \<open>
  What can happen to a loaded plugin: a click on one of its controls, a change in the
  settings tab, the timer's interval coming due, one of the two kinds of timeouts
  coming due, and unloading. A timeout event with no pending timeout of its kind does
  nothing.
\<close>

datatype event =
    PauseResumeClick
  | ResetClick
  | CycleModeClick
  | PieButtonClick
  | Change control
  | Tick nat
  | AutoStartTimeout
  | AckTimeout
  | Unload

fun handle :: "event \<Rightarrow> PomodoroPlugin \<Rightarrow> PomodoroPlugin" where
  "handle PauseResumeClick p = handlePauseResumeClick p"
| "handle ResetClick p = handleResetClick p"
| "handle CycleModeClick p = handleCycleModeClick p"
| "handle PieButtonClick p = pieButtonClick p"
| "handle (Change c) p = onChange c p"
| "handle (Tick h) p = callTimer (intervalFire h) p"
| "handle AutoStartTimeout p =
     (if autoStartTimeouts p = 0 then p
      else autoStartCallback (p\<lparr>autoStartTimeouts := autoStartTimeouts p - 1\<rparr>))"
| "handle AckTimeout p =
     (if ackTimeouts p = 0 then p
      else ackTimeoutCallback (p\<lparr>ackTimeouts := ackTimeouts p - 1\<rparr>))"
| "handle Unload p = onunload p"

fun play :: "event list \<Rightarrow> PomodoroPlugin \<Rightarrow> PomodoroPlugin" where
  "play [] p = p"
| "play (e # es) p = play es (handle e p)"

section \<open>Predicates used in the statements\<close>

text \<open>
  What every state of the engine that a run can reach satisfies, whatever the settings:
  the browser's table holds exactly the interval the engine remembers, handles are
  positive and older than the next one, an idle engine shows no time, and the engine
  remembers an interval exactly while it counts down.
\<close>

definition wellFormed :: "PomoTimer \<Rightarrow> bool" where
  "wellFormed t \<longleftrightarrow>
     0 < nextHandle t \<and>
     intervals t = (case intervalId t of None \<Rightarrow> [] | Some h \<Rightarrow> [h]) \<and>
     (case intervalId t of None \<Rightarrow> True | Some h \<Rightarrow> 0 < h \<and> h < nextHandle t) \<and>
     (state t = Idle \<longrightarrow> remainingTime t = 0 \<and> totalTime t = 0) \<and>
     (intervalId t = None \<longleftrightarrow> state t = Idle \<or> state t = Paused)"

text \<open>Positive configured durations, and commands that never install other ones.\<close>

definition positive :: "PomodoroSettings \<Rightarrow> bool" where
  "positive s \<longleftrightarrow> 0 < workTime s \<and> 0 < shortBreakTime s \<and> 0 < longBreakTime s"

fun positiveCommand :: "command \<Rightarrow> bool" where
  "positiveCommand (UpdateSettings s) = positive s"
| "positiveCommand _ = True"

definition counting :: "PomoTimer \<Rightarrow> bool" where
  "counting t \<longleftrightarrow>
     positive (settings t) \<and> remainingTime t \<le> totalTime t \<and>
     (state t \<noteq> Idle \<longrightarrow> 0 < remainingTime t)"

text \<open>
  The minutes the settings give a mode: the choice that the \<^verbatim>\<open>switch\<close> of
  \<^verbatim>\<open>start\<close> and \<^verbatim>\<open>getIdleTimeText\<close> both make.
\<close>

definition configuredMinutes :: "PomodoroSettings \<Rightarrow> TimerState \<Rightarrow> int" where
  "configuredMinutes s m =
     (if m = Work then workTime s
      else if m = ShortBreak then shortBreakTime s else longBreakTime s)"

text \<open>How many times a list of emissions calls \<^verbatim>\<open>onTimerComplete()\<close>.\<close>

definition completions :: "emission list \<Rightarrow> nat" where
  "completions es = length (filter (\<lambda>e. notif e = OnTimerComplete) es)"

subsection \<open>Concrete inputs\<close>

text \<open>
  Settings with every duration at one minute and the default long-break interval of 4,
  so that an interval is 60 ticks long.
\<close>

definition oneMinute :: PomodoroSettings where
  "oneMinute = DEFAULT_SETTINGS\<lparr>workTime := 1, shortBreakTime := 1, longBreakTime := 1\<rparr>"

text \<open>
  On a freshly loaded plugin: a click on the time button, which starts the Work
  interval on the browser's first interval handle, and then its 60 ticks.
\<close>

definition workEvents :: "event list" where
  "workEvents = PauseResumeClick # replicate 60 (Tick 1)"

text \<open>
  The \<open>k\<close>-th interval of a user who lets every interval run out: a click starts the
  interval of the current mode on handle \<open>k\<close>; the 10000 ms timeout left over from
  the interval before comes due while this one runs; 60 ticks; and a click that
  acknowledges the completion.
\<close>

definition session :: "nat \<Rightarrow> event list" where
  "session k = PauseResumeClick # AckTimeout # replicate 60 (Tick k) @ [PauseResumeClick]"

text \<open>
  \<^verbatim>\<open>nextMode\<close> and \<^verbatim>\<open>completedPomodoros\<close> as they stand after each of a list of
  event sequences played one after the other.
\<close>

fun nextModesAfter :: "event list list \<Rightarrow> PomodoroPlugin \<Rightarrow> (TimerState \<times> int) list" where
  "nextModesAfter [] p = []"
| "nextModesAfter (es # ess) p =
     (nextMode (play es p), completedPomodoros (play es p)) # nextModesAfter ess (play es p)"

text \<open>
  A Work interval runs out and the user resets; a click starts Work again on handle 2
  and after one tick a second click pauses it; the 10000 ms timeout of the first
  completion comes due; a click resumes the countdown on handle 3, and 58 ticks bring
  it to its last second.
\<close>

definition staleEvents :: "event list" where
  "staleEvents =
     workEvents @ [ResetClick, PauseResumeClick, Tick 2, PauseResumeClick, AckTimeout,
                   PauseResumeClick] @ replicate 58 (Tick 3)"

subsection \<open>Plugin and engine in step\<close>

text \<open>
  The plugin's modes are modes, a running engine runs the plugin's current mode, and a
  paused engine was paused in it, with no session awaiting acknowledgment.
\<close>

definition inStep :: "PomodoroPlugin \<Rightarrow> bool" where
  "inStep p \<longleftrightarrow>
     nextMode p \<noteq> Idle \<and> nextMode p \<noteq> Paused \<and>
     currentMode p \<noteq> Idle \<and> currentMode p \<noteq> Paused \<and>
     (isRunning (timer p) \<longrightarrow> state (timer p) = currentMode p) \<and>
     (state (timer p) = Paused \<longrightarrow>
        prePauseState (timer p) = currentMode p \<and> \<not> isSessionComplete p)"

text \<open>
  Event sequences in which the 10000 ms timeout, whenever one is pending and comes due,
  finds the session still awaiting acknowledgment.
\<close>

fun timely :: "event list \<Rightarrow> PomodoroPlugin \<Rightarrow> bool" where
  "timely [] p = True"
| "timely (e # es) p =
     ((e = AckTimeout \<longrightarrow> isSessionComplete p \<or> ackTimeouts p = 0) \<and> timely es (handle e p))"

section \<open>Invariants of the engine\<close>

lemmas engine_defs =
  start_def pause_def resume_def stop_def reset_def updateSettings_def intervalFire_def
  intervalCallback_def emit_def truthy_def clearInterval_def setInterval_def Let_def

lemma wellFormed_newTimer: "wellFormed (newTimer s)"
  by (simp add: wellFormed_def newTimer_def)

lemma wellFormed_start: "wellFormed t \<Longrightarrow> wellFormed (fst (start s t))"
  by (cases s) (auto simp: wellFormed_def engine_defs split: option.splits)

lemma wellFormed_stop: "wellFormed t \<Longrightarrow> wellFormed (fst (stop t))"
  by (auto simp: wellFormed_def engine_defs split: option.splits)

lemma wellFormed_pause: "wellFormed t \<Longrightarrow> wellFormed (fst (pause t))"
  by (auto simp: wellFormed_def engine_defs split: option.splits)

lemma wellFormed_resume: "wellFormed t \<Longrightarrow> wellFormed (fst (resume t))"
  by (simp add: resume_def wellFormed_start)

lemma wellFormed_reset: "wellFormed t \<Longrightarrow> wellFormed (fst (reset t))"
  using wellFormed_stop [of t] by (simp add: reset_def split_beta)

lemma wellFormed_updateSettings: "wellFormed t \<Longrightarrow> wellFormed (fst (updateSettings s t))"
  by (simp add: wellFormed_def updateSettings_def split: option.splits)

lemma wellFormed_intervalFire: "wellFormed t \<Longrightarrow> wellFormed (fst (intervalFire h t))"
  by (auto simp: wellFormed_def engine_defs split: option.splits)

lemma wellFormed_exec: "wellFormed t \<Longrightarrow> wellFormed (fst (exec c t))"
  by (cases c)
     (simp_all add: wellFormed_start wellFormed_pause wellFormed_resume wellFormed_stop
        wellFormed_reset wellFormed_updateSettings wellFormed_intervalFire)

lemma wellFormed_run: "wellFormed t \<Longrightarrow> wellFormed (run cs t)"
  by (induction cs arbitrary: t) (simp_all add: wellFormed_exec)

lemma counting_newTimer: "positive s \<Longrightarrow> counting (newTimer s)"
  by (simp add: counting_def newTimer_def)

lemma counting_start: "wellFormed t \<Longrightarrow> counting t \<Longrightarrow> counting (fst (start s t))"
  by (cases s) (auto simp: counting_def wellFormed_def positive_def engine_defs)

lemma counting_stop: "counting t \<Longrightarrow> counting (fst (stop t))"
  by (auto simp: counting_def engine_defs split: option.splits)

lemma counting_pause: "counting t \<Longrightarrow> counting (fst (pause t))"
  by (auto simp: counting_def engine_defs split: option.splits)

lemma counting_resume: "wellFormed t \<Longrightarrow> counting t \<Longrightarrow> counting (fst (resume t))"
  by (simp add: resume_def counting_start)

lemma counting_reset: "counting t \<Longrightarrow> counting (fst (reset t))"
  using counting_stop [of t] by (simp add: reset_def split_beta)

lemma counting_updateSettings:
  "positive s \<Longrightarrow> counting t \<Longrightarrow> counting (fst (updateSettings s t))"
  by (simp add: counting_def updateSettings_def)

lemma counting_intervalFire: "counting t \<Longrightarrow> counting (fst (intervalFire h t))"
  by (auto simp: counting_def engine_defs split: option.splits)

lemma counting_exec:
  "wellFormed t \<Longrightarrow> counting t \<Longrightarrow> positiveCommand c \<Longrightarrow> counting (fst (exec c t))"
  by (cases c)
     (simp_all add: counting_start counting_pause counting_resume counting_stop
        counting_reset counting_updateSettings counting_intervalFire)

lemma counting_run:
  "wellFormed t \<Longrightarrow> counting t \<Longrightarrow> \<forall>c\<in>set cs. positiveCommand c \<Longrightarrow> counting (run cs t)"
  by (induction cs arbitrary: t) (simp_all add: counting_exec wellFormed_exec)

subsection \<open>How one command moves the remaining time\<close>

lemma remaining_nonincreasing_running:
  "wellFormed t \<Longrightarrow> counting t \<Longrightarrow> isRunning t \<Longrightarrow> isRunning (fst (exec c t)) \<Longrightarrow>
   remainingTime (fst (exec c t)) \<le> remainingTime t"
  by (cases c)
     (auto simp: isRunning_def counting_def wellFormed_def engine_defs split_beta
           split: option.splits if_splits)

lemma remaining_constant_paused:
  "wellFormed t \<Longrightarrow> state t = Paused \<Longrightarrow> state (fst (exec c t)) = Paused \<Longrightarrow>
   remainingTime (fst (exec c t)) = remainingTime t"
  by (cases c)
     (auto simp: wellFormed_def engine_defs split_beta
           split: option.splits if_splits TimerState.splits)

lemma remaining_increase_fresh_start:
  "wellFormed t \<Longrightarrow> counting t \<Longrightarrow> remainingTime t < remainingTime (fst (exec c t)) \<Longrightarrow>
   state t = Idle \<and> (\<exists>m. c = Start m \<and> state (fst (exec c t)) = m) \<and>
   remainingTime (fst (exec c t)) = totalTime (fst (exec c t))"
  by (cases c)
     (auto simp: counting_def wellFormed_def engine_defs split_beta
           split: option.splits if_splits TimerState.splits)

lemma pause_resume_keeps_time:
  "wellFormed t \<Longrightarrow> counting t \<Longrightarrow>
   remainingTime (fst (resume (fst (pause t)))) = remainingTime t \<and>
   totalTime (fst (resume (fst (pause t)))) = totalTime t"
  by (auto simp: counting_def wellFormed_def engine_defs split_beta
           split: option.splits if_splits TimerState.splits)

lemma idle_iff_zero:
  "wellFormed t \<Longrightarrow> counting t \<Longrightarrow>
   (remainingTime t = 0 \<and> totalTime t = 0) = (state t = Idle)"
  by (auto simp: counting_def wellFormed_def)

section \<open>The plugin: what its handlers leave alone\<close>

lemmas plugin_defs =
  onTimerComplete_def advanceToNextMode_def onTimerCompletion_def dispatch_def
  acknowledgeSessionComplete_def handlePauseResumeClick_def handleResetClick_def
  handleCycleModeClick_def pieButtonClick_def autoStartCallback_def ackTimeoutCallback_def
  saveSettings_def onChange_def onunload_def

lemma timer_dispatch: "timer (dispatch e p) = timer p"
  by (cases "notif e") (simp_all add: plugin_defs Let_def)

lemma timer_fold_dispatch: "timer (fold dispatch es p) = timer p"
  by (induction es arbitrary: p) (simp_all add: timer_dispatch)

lemma timer_callTimer: "timer (callTimer f p) = fst (f (timer p))"
  by (simp add: callTimer_def timer_fold_dispatch)

lemma timer_acknowledge: "timer (acknowledgeSessionComplete p) = timer p"
  by (simp add: acknowledgeSessionComplete_def Let_def)

lemma settings_start: "settings (fst (start s t)) = settings t"
  by (cases s) (simp_all add: engine_defs split: option.splits)

lemma settings_stop: "settings (fst (stop t)) = settings t"
  by (simp add: engine_defs split: option.splits)

lemma settings_pause: "settings (fst (pause t)) = settings t"
  by (simp add: engine_defs split: option.splits)

lemma settings_resume: "settings (fst (resume t)) = settings t"
  by (simp add: resume_def settings_start)

lemma settings_reset: "settings (fst (reset t)) = settings t"
  using settings_stop [of t] by (simp add: reset_def split_beta)

lemma settings_intervalFire: "settings (fst (intervalFire h t)) = settings t"
  by (simp add: engine_defs split_beta split: option.splits)

lemma sessions_assign: "sessions (assign c s) = sessions s"
  by (cases c) simp_all

lemma sessions_handle:
  "sessions (settings (timer (handle e p))) = sessions (settings (timer p))"
proof (cases e)
  case PauseResumeClick
  then show ?thesis
    by (simp add: handlePauseResumeClick_def timer_acknowledge timer_callTimer
        settings_start settings_pause settings_resume)
next
  case ResetClick
  then show ?thesis by (simp add: handleResetClick_def timer_callTimer settings_reset)
next
  case CycleModeClick
  then show ?thesis
    by (simp add: handleCycleModeClick_def timer_acknowledge Let_def
        split: TimerState.splits)
next
  case PieButtonClick
  then show ?thesis by (simp add: pieButtonClick_def timer_acknowledge)
next
  case (Change c)
  then show ?thesis
    by (simp add: onChange_def saveSettings_def timer_callTimer updateSettings_def sessions_assign)
next
  case (Tick h)
  then show ?thesis by (simp add: timer_callTimer settings_intervalFire)
next
  case AutoStartTimeout
  then show ?thesis by (simp add: autoStartCallback_def timer_callTimer settings_start Let_def)
next
  case AckTimeout
  then show ?thesis by (simp add: ackTimeoutCallback_def timer_acknowledge)
next
  case Unload
  then show ?thesis by (simp add: onunload_def timer_callTimer settings_stop)
qed

lemma sessions_play:
  "sessions (settings (timer (play es p))) = sessions (settings (timer p))"
  by (induction es arbitrary: p) (simp_all add: sessions_handle)

subsection \<open>Completion callbacks per command\<close>

lemma completions_exec:
  "completions (snd (exec c t)) =
     (case c of
        IntervalFire h \<Rightarrow> if h \<in> set (intervals t) \<and> remainingTime t \<le> 1 then 1 else 0
      | _ \<Rightarrow> 0)"
  by (cases c)
     (auto simp: completions_def engine_defs split_beta split: TimerState.splits)

section \<open>The count of completed Work intervals\<close>

lemma jsRem_zero_iff: "0 < a \<Longrightarrow> (jsRem a b = Some 0) = (a mod b = 0)"
proof (cases "b = 0")
  case True
  assume "0 < a"
  with True show ?thesis by (simp add: jsRem_def)
next
  case False
  assume a: "0 < a"
  have "(\<bar>a\<bar> mod \<bar>b\<bar> = 0) = (a mod b = 0)"
    by (simp add: mod_eq_0_iff_dvd)
  with a False show ?thesis by (simp add: jsRem_def)
qed

lemma completed_advance: "completedPomodoros p \<le> completedPomodoros (advanceToNextMode p)"
  by (simp add: advanceToNextMode_def Let_def)

lemma completed_dispatch: "completedPomodoros p \<le> completedPomodoros (dispatch e p)"
  using completed_advance [of "p\<lparr>isSessionComplete := True,
      notices := notices p @ [getModeText (p\<lparr>isSessionComplete := True\<rparr>) @ '' session completed!'']\<rparr>"]
  by (cases "notif e") (simp_all add: dispatch_def onTimerComplete_def onTimerCompletion_def Let_def)

lemma completed_fold_dispatch: "completedPomodoros p \<le> completedPomodoros (fold dispatch es p)"
proof (induction es arbitrary: p)
  case Nil
  show ?case by simp
next
  case (Cons e es)
  have "completedPomodoros p \<le> completedPomodoros (dispatch e p)"
    by (rule completed_dispatch)
  also have "\<dots> \<le> completedPomodoros (fold dispatch es (dispatch e p))"
    by (rule Cons.IH)
  finally show ?case by simp
qed

lemma completed_callTimer: "completedPomodoros p \<le> completedPomodoros (callTimer f p)"
  using completed_fold_dispatch [of "p\<lparr>timer := fst (f (timer p))\<rparr>" "snd (f (timer p))"]
  by (simp add: callTimer_def)

lemma completed_acknowledge:
  "completedPomodoros (acknowledgeSessionComplete p) = completedPomodoros p"
  by (simp add: acknowledgeSessionComplete_def Let_def)

lemma completed_handle: "completedPomodoros p \<le> completedPomodoros (handle e p)"
proof (cases e)
  case PauseResumeClick
  then show ?thesis
    by (simp add: handlePauseResumeClick_def completed_acknowledge completed_callTimer)
next
  case ResetClick
  then show ?thesis by (simp add: handleResetClick_def completed_callTimer)
next
  case CycleModeClick
  then show ?thesis
    by (simp add: handleCycleModeClick_def completed_acknowledge Let_def split: TimerState.splits)
next
  case PieButtonClick
  then show ?thesis by (simp add: pieButtonClick_def completed_acknowledge)
next
  case (Change c)
  then show ?thesis
    using completed_callTimer
      [of "p\<lparr>timer := (timer p)\<lparr>settings := assign c (settings (timer p))\<rparr>\<rparr>"]
    by (simp add: onChange_def saveSettings_def)
next
  case (Tick h)
  then show ?thesis by (simp add: completed_callTimer)
next
  case AutoStartTimeout
  then show ?thesis
    using completed_callTimer
      [of "p\<lparr>autoStartTimeouts := autoStartTimeouts p - 1, currentMode := nextMode p\<rparr>"]
    by (simp add: autoStartCallback_def Let_def)
next
  case AckTimeout
  then show ?thesis by (simp add: ackTimeoutCallback_def completed_acknowledge)
next
  case Unload
  then show ?thesis
    using completed_callTimer [of "p\<lparr>isPanelPinned := False\<rparr>"]
    by (simp add: onunload_def)
qed

lemma completed_play: "completedPomodoros p \<le> completedPomodoros (play es p)"
proof (induction es arbitrary: p)
  case Nil
  show ?case by simp
next
  case (Cons e es)
  have "completedPomodoros p \<le> completedPomodoros (handle e p)"
    by (rule completed_handle)
  also have "\<dots> \<le> completedPomodoros (play es (handle e p))"
    by (rule Cons.IH)
  finally show ?case by simp
qed

lemma completed_nonneg: "0 \<le> completedPomodoros (play es (onload s))"
  using completed_play [of "onload s" es] by (simp add: onload_def)

lemma completing_tick:
  assumes "h \<in> set (intervals (timer p))" and "remainingTime (timer p) \<le> 1"
  shows "handle (Tick h) p = onTimerComplete (p\<lparr>timer := fst (intervalFire h (timer p))\<rparr>)"
  using assms
  by (simp add: callTimer_def intervalFire_def intervalCallback_def stop_def emit_def Let_def
      dispatch_def onTimerCompletion_def split_beta)

lemma onTimerComplete_work:
  assumes "currentMode p = Work" and "0 \<le> completedPomodoros p"
  shows "completedPomodoros (onTimerComplete p) = completedPomodoros p + 1 \<and>
         nextMode (onTimerComplete p) =
           (if (completedPomodoros p + 1) mod longBreakInterval (settings (timer p)) = 0
            then LongBreak else ShortBreak)"
proof -
  have "0 < completedPomodoros p + 1"
    using assms(2) by simp
  then have "(jsRem (completedPomodoros p + 1) (longBreakInterval (settings (timer p))) = Some 0) =
      ((completedPomodoros p + 1) mod longBreakInterval (settings (timer p)) = 0)"
    by (rule jsRem_zero_iff)
  then show ?thesis
    using assms(1) by (simp add: onTimerComplete_def advanceToNextMode_def Let_def)
qed

lemma onTimerComplete_break:
  assumes "currentMode p \<noteq> Work"
  shows "completedPomodoros (onTimerComplete p) = completedPomodoros p \<and>
         nextMode (onTimerComplete p) = Work"
  using assms by (simp add: onTimerComplete_def advanceToNextMode_def Let_def)

lemma cadence16:
  "nextModesAfter (map session [1,2,3,4,5,6,7,8,9,10,11,12,13,14,15,16]) (onload oneMinute) =
  [(ShortBreak, 1), (Work, 1), (ShortBreak, 2), (Work, 2), (ShortBreak, 3), (Work, 3),
   (LongBreak, 4), (Work, 4), (ShortBreak, 5), (Work, 5), (ShortBreak, 6), (Work, 6),
   (ShortBreak, 7), (Work, 7), (LongBreak, 8), (Work, 8)]"
  by code_simp

lemma cadence_by_currentMode:
  assumes "p = play es (onload s0)"
    and "h \<in> set (intervals (timer p))" and "remainingTime (timer p) \<le> 1"
  shows "(currentMode p = Work \<longrightarrow>
            completedPomodoros (handle (Tick h) p) = completedPomodoros p + 1 \<and>
            nextMode (handle (Tick h) p) =
              (if (completedPomodoros p + 1) mod longBreakInterval (settings (timer p)) = 0
               then LongBreak else ShortBreak)) \<and>
         (currentMode p \<noteq> Work \<longrightarrow>
            completedPomodoros (handle (Tick h) p) = completedPomodoros p \<and>
            nextMode (handle (Tick h) p) = Work)"
proof -
  let ?q = "p\<lparr>timer := fst (intervalFire h (timer p))\<rparr>"
  have step: "handle (Tick h) p = onTimerComplete ?q"
    using assms(2,3) by (rule completing_tick)
  have nn: "0 \<le> completedPomodoros ?q"
    using completed_nonneg [of es s0] assms(1) by simp
  have st: "settings (timer ?q) = settings (timer p)"
    by (simp add: settings_intervalFire)
  have w: "currentMode p = Work \<longrightarrow>
            completedPomodoros (handle (Tick h) p) = completedPomodoros p + 1 \<and>
            nextMode (handle (Tick h) p) =
              (if (completedPomodoros p + 1) mod longBreakInterval (settings (timer p)) = 0
               then LongBreak else ShortBreak)"
  proof
    assume "currentMode p = Work"
    then have "currentMode ?q = Work" by simp
    from onTimerComplete_work [OF this nn]
    show "completedPomodoros (handle (Tick h) p) = completedPomodoros p + 1 \<and>
            nextMode (handle (Tick h) p) =
              (if (completedPomodoros p + 1) mod longBreakInterval (settings (timer p)) = 0
               then LongBreak else ShortBreak)"
      unfolding step st by simp
  qed
  have b: "currentMode p \<noteq> Work \<longrightarrow>
            completedPomodoros (handle (Tick h) p) = completedPomodoros p \<and>
            nextMode (handle (Tick h) p) = Work"
  proof
    assume "currentMode p \<noteq> Work"
    then have "currentMode ?q \<noteq> Work" by simp
    from onTimerComplete_break [OF this]
    show "completedPomodoros (handle (Tick h) p) = completedPomodoros p \<and>
            nextMode (handle (Tick h) p) = Work"
      unfolding step by simp
  qed
  show ?thesis
    using w b by blast
qed

section \<open>Plugin and engine stay in step while no timeout comes late\<close>

lemma state_start:
  "state (fst (start m t)) = (if m = Idle \<or> m = Paused then state t else m)"
  by (cases m) (simp_all add: engine_defs split: option.splits)

lemma prePauseState_start: "prePauseState (fst (start m t)) = prePauseState t"
  by (cases m) (simp_all add: engine_defs split: option.splits)

lemma pause_cases:
  "fst (pause t) = t \<or>
   (isRunning t \<and> state (fst (pause t)) = Paused \<and> prePauseState (fst (pause t)) = state t)"
  by (simp add: engine_defs isRunning_def split: option.splits)

lemma state_stop: "state (fst (stop t)) = Idle"
  by (simp add: engine_defs split: option.splits)

lemma state_reset: "state (fst (reset t)) = Idle"
  using state_stop [of t] by (simp add: reset_def split_beta)

lemma state_intervalFire:
  "state (fst (intervalFire h t)) =
     (if h \<in> set (intervals t) \<and> remainingTime t \<le> 1 then Idle else state t)"
  by (simp add: engine_defs split_beta split: option.splits)

lemma prePauseState_intervalFire:
  "prePauseState (fst (intervalFire h t)) = prePauseState t"
  by (simp add: engine_defs split_beta split: option.splits)

lemma callTimer_start: "callTimer (start m) p = p\<lparr>timer := fst (start m (timer p))\<rparr>"
  by (cases m) (simp_all add: callTimer_def dispatch_def engine_defs)

lemma callTimer_pause: "callTimer pause p = p\<lparr>timer := fst (pause (timer p))\<rparr>"
  by (simp add: callTimer_def dispatch_def engine_defs)

lemma callTimer_resume: "callTimer resume p = p\<lparr>timer := fst (resume (timer p))\<rparr>"
  using callTimer_start [of "prePauseState (timer p)" p]
  by (simp add: callTimer_def resume_def)

lemma callTimer_stop: "callTimer stop p = p\<lparr>timer := fst (stop (timer p))\<rparr>"
  by (simp add: callTimer_def dispatch_def engine_defs)

lemma callTimer_reset: "callTimer reset p = p\<lparr>timer := fst (reset (timer p))\<rparr>"
  by (simp add: callTimer_def dispatch_def engine_defs split_beta)

lemma callTimer_intervalFire:
  "callTimer (intervalFire h) p =
     (if h \<in> set (intervals (timer p)) \<and> remainingTime (timer p) \<le> 1
      then onTimerComplete (p\<lparr>timer := fst (intervalFire h (timer p))\<rparr>)
      else p\<lparr>timer := fst (intervalFire h (timer p))\<rparr>)"
  by (simp add: callTimer_def dispatch_def onTimerCompletion_def engine_defs split_beta)

lemma inStep_acknowledge:
  "inStep p \<Longrightarrow> isSessionComplete p \<Longrightarrow> inStep (acknowledgeSessionComplete p)"
  by (auto simp: inStep_def acknowledgeSessionComplete_def isRunning_def Let_def)

lemma inStep_onTimerComplete:
  "inStep p \<Longrightarrow> state (timer p) = Idle \<Longrightarrow> inStep (onTimerComplete p)"
  by (auto simp: inStep_def onTimerComplete_def advanceToNextMode_def isRunning_def Let_def)

lemma inStep_start_current:
  "inStep p \<Longrightarrow> \<not> isSessionComplete p \<or> state (timer p) \<noteq> Paused \<Longrightarrow>
   inStep (p\<lparr>timer := fst (start (currentMode p) (timer p))\<rparr>)"
  by (auto simp: inStep_def isRunning_def state_start prePauseState_start)

lemma inStep_handle:
  assumes "inStep p" and "e = AckTimeout \<longrightarrow> isSessionComplete p \<or> ackTimeouts p = 0"
  shows "inStep (handle e p)"
proof (cases e)
  case PauseResumeClick
  show ?thesis
  proof (cases "isSessionComplete p")
    case True
    with assms(1) PauseResumeClick show ?thesis
      by (simp add: handlePauseResumeClick_def inStep_acknowledge)
  next
    case False
    then have h: "handle e p =
        (if isRunning (timer p) \<or> state (timer p) = Paused then
           (if state (timer p) = Paused then p\<lparr>timer := fst (resume (timer p))\<rparr>
            else p\<lparr>timer := fst (pause (timer p))\<rparr>)
         else p\<lparr>timer := fst (start (currentMode p) (timer p))\<rparr>)"
      using PauseResumeClick
      by (simp add: handlePauseResumeClick_def getState_def callTimer_start callTimer_pause
          callTimer_resume)
    show ?thesis
      using assms(1) False pause_cases [of "timer p"]
      unfolding h
      by (auto simp: inStep_def isRunning_def resume_def state_start prePauseState_start)
  qed
next
  case ResetClick
  with assms(1) show ?thesis
    by (simp add: handleResetClick_def callTimer_reset inStep_def isRunning_def state_reset)
next
  case CycleModeClick
  with assms(1) show ?thesis
    by (auto simp: handleCycleModeClick_def acknowledgeSessionComplete_def inStep_def
        isRunning_def getState_def Let_def split: TimerState.splits)
next
  case PieButtonClick
  with assms(1) show ?thesis
    by (auto simp: pieButtonClick_def inStep_acknowledge) (simp add: inStep_def)
next
  case (Change c)
  with assms(1) show ?thesis
    by (simp add: onChange_def saveSettings_def callTimer_def updateSettings_def inStep_def
        isRunning_def)
next
  case (Tick h)
  have a: "inStep (p\<lparr>timer := fst (intervalFire h (timer p))\<rparr>)"
    using assms(1)
    by (auto simp: inStep_def isRunning_def state_intervalFire prePauseState_intervalFire)
  show ?thesis
    using Tick a inStep_onTimerComplete [of "p\<lparr>timer := fst (intervalFire h (timer p))\<rparr>"]
    by (simp add: callTimer_intervalFire state_intervalFire)
next
  case AutoStartTimeout
  show ?thesis
  proof (cases "autoStartTimeouts p = 0 \<or> \<not> isSessionComplete p")
    case True
    with assms(1) AutoStartTimeout show ?thesis
      by (auto simp: autoStartCallback_def inStep_def)
  next
    case False
    then have h: "handle e p =
        p\<lparr>autoStartTimeouts := autoStartTimeouts p - 1, currentMode := nextMode p,
          timer := fst (start (nextMode p) (timer p))\<rparr>"
      using AutoStartTimeout by (simp add: autoStartCallback_def Let_def callTimer_start)
    show ?thesis
      using assms(1) False unfolding h
      by (auto simp: inStep_def isRunning_def state_start prePauseState_start)
  qed
next
  case AckTimeout
  show ?thesis
  proof (cases "ackTimeouts p = 0")
    case True
    with assms(1) AckTimeout show ?thesis by simp
  next
    case False
    with assms(2) AckTimeout have c: "isSessionComplete p" by simp
    have "inStep (p\<lparr>ackTimeouts := ackTimeouts p - 1\<rparr>)"
      using assms(1) by (simp add: inStep_def)
    then show ?thesis
      using AckTimeout False c
        inStep_acknowledge [of "p\<lparr>ackTimeouts := ackTimeouts p - 1\<rparr>"]
      by (simp add: ackTimeoutCallback_def)
  qed
next
  case Unload
  with assms(1) show ?thesis
    by (simp add: onunload_def callTimer_stop inStep_def isRunning_def state_stop)
qed

lemma inStep_onload: "inStep (onload s)"
  by (simp add: inStep_def onload_def newTimer_def isRunning_def)

lemma inStep_play: "inStep p \<Longrightarrow> timely es p \<Longrightarrow> inStep (play es p)"
  by (induction es arbitrary: p) (simp_all add: inStep_handle)

text \<open>
  On such runs the cadence follows the mode the engine completes: a completed Work
  interval is counted and followed by the long break when the count is divisible by
  the long-break interval and by the short break otherwise, and a completed break is
  followed by Work.
\<close>

lemma cadence_when_timely:
  assumes "p = play es (onload s0)" and "timely es (onload s0)"
    and "h \<in> set (intervals (timer p))" and "remainingTime (timer p) \<le> 1"
  shows "(state (timer p) = Work \<longrightarrow>
            completedPomodoros (handle (Tick h) p) = completedPomodoros p + 1 \<and>
            nextMode (handle (Tick h) p) =
              (if (completedPomodoros p + 1) mod longBreakInterval (settings (timer p)) = 0
               then LongBreak else ShortBreak)) \<and>
         (state (timer p) = ShortBreak \<or> state (timer p) = LongBreak \<longrightarrow>
            completedPomodoros (handle (Tick h) p) = completedPomodoros p \<and>
            nextMode (handle (Tick h) p) = Work)"
proof -
  have "inStep p"
    using assms(1,2) by (simp add: inStep_play inStep_onload)
  then have m: "isRunning (timer p) \<longrightarrow> state (timer p) = currentMode p"
    by (simp add: inStep_def)
  show ?thesis
    using m cadence_by_currentMode [OF assms(1,3,4)]
    by (auto simp: isRunning_def)
qed

section \<open>Evaluated runs\<close>

lemma play_append: "play (es @ fs) p = play fs (play es p)"
  by (induction es arbitrary: p) simp_all

lemma work_completed:
  "play workEvents (onload oneMinute) =
     \<lparr> timer = \<lparr> state = Idle, prePauseState = Idle, remainingTime = 0, totalTime = 0,
                 intervalId = None, settings = oneMinute, intervals = [], nextHandle = 2 \<rparr>,
       currentMode = Work, completedPomodoros = 1, nextMode = ShortBreak,
       isSessionComplete = True, isPanelPinned = False, autoStartTimeouts = 0,
       ackTimeouts = 1, notices = [''Focus session completed!''] \<rparr>"
  by code_simp

lemma work_completed_autostart:
  "play workEvents (onload (oneMinute\<lparr>autoStartBreaks := True\<rparr>)) =
     \<lparr> timer = \<lparr> state = Idle, prePauseState = Idle, remainingTime = 0, totalTime = 0,
                 intervalId = None, settings = oneMinute\<lparr>autoStartBreaks := True\<rparr>,
                 intervals = [], nextHandle = 2 \<rparr>,
       currentMode = Work, completedPomodoros = 1, nextMode = ShortBreak,
       isSessionComplete = True, isPanelPinned = False, autoStartTimeouts = 1,
       ackTimeouts = 1, notices = [''Focus session completed!''] \<rparr>"
  by code_simp

lemma last_second:
  "run (Start Work # replicate 59 (IntervalFire 1)) (newTimer oneMinute) =
     \<lparr> state = Work, prePauseState = Idle, remainingTime = 1, totalTime = 60,
       intervalId = Some 1, settings = oneMinute, intervals = [1], nextHandle = 2 \<rparr>"
  by code_simp

lemma last_second_plugin:
  "play (PauseResumeClick # replicate 59 (Tick 1)) (onload oneMinute) =
     \<lparr> timer = \<lparr> state = Work, prePauseState = Idle, remainingTime = 1, totalTime = 60,
                 intervalId = Some 1, settings = oneMinute, intervals = [1], nextHandle = 2 \<rparr>,
       currentMode = Work, completedPomodoros = 0, nextMode = ShortBreak,
       isSessionComplete = False, isPanelPinned = False, autoStartTimeouts = 0,
       ackTimeouts = 0, notices = [] \<rparr>"
  by code_simp

lemma stale_last_second:
  "play staleEvents (onload oneMinute) =
     \<lparr> timer = \<lparr> state = Work, prePauseState = Work, remainingTime = 1, totalTime = 60,
                 intervalId = Some 3, settings = oneMinute, intervals = [3], nextHandle = 4 \<rparr>,
       currentMode = ShortBreak, completedPomodoros = 1, nextMode = ShortBreak,
       isSessionComplete = False, isPanelPinned = False, autoStartTimeouts = 0,
       ackTimeouts = 0, notices = [''Focus session completed!''] \<rparr>"
  by code_simp

lemma timely_last_second:
  "play (workEvents @ [ResetClick, PauseResumeClick, Tick 2, PauseResumeClick, PauseResumeClick]
           @ replicate 58 (Tick 3)) (onload oneMinute) =
     \<lparr> timer = \<lparr> state = Work, prePauseState = Work, remainingTime = 1, totalTime = 60,
                 intervalId = Some 3, settings = oneMinute, intervals = [3], nextHandle = 4 \<rparr>,
       currentMode = Work, completedPomodoros = 1, nextMode = ShortBreak,
       isSessionComplete = False, isPanelPinned = False, autoStartTimeouts = 0,
       ackTimeouts = 1, notices = [''Focus session completed!''] \<rparr>"
  by code_simp

section \<open>The claims\<close>

text \<open>
  C1. This code creates no Session record at all. Whatever events the plugin handles,
  clicks, ticks up to and including the one that completes an interval, timeouts,
  changes of settings, reset and unloading, the list \<^verbatim>\<open>settings.sessions\<close> is
  afterwards what it was before. What a natural completion does produce, once, is the
  callback \<^verbatim>\<open>onTimerComplete()\<close>, which takes no duration: of the engine's commands
  only the tick of a live interval that brings the remaining time to 0 or below calls
  it, exactly once; \<^verbatim>\<open>stop()\<close>, \<^verbatim>\<open>reset()\<close> and every other command never do.
\<close>

theorem no_session_record_created:
  "sessions (settings (timer (play es p))) = sessions (settings (timer p)) \<and>
   completions (snd (exec c t)) =
     (case c of
        IntervalFire h \<Rightarrow> if h \<in> set (intervals t) \<and> remainingTime t \<le> 1 then 1 else 0
      | _ \<Rightarrow> 0)"
  using sessions_play [of es p] completions_exec [of c t] by blast

theorem no_session_record_created_witness:
  "sessions (settings (timer (play workEvents (onload oneMinute)))) =
     sessions (settings (timer (onload oneMinute))) \<and>
   completions (snd (exec (IntervalFire 1)
     (run (Start Work # replicate 59 (IntervalFire 1)) (newTimer oneMinute)))) = 1 \<and>
   completions (snd (exec Reset
     (run (Start Work # replicate 59 (IntervalFire 1)) (newTimer oneMinute)))) = 0 \<and>
   completions (snd (exec Stop
     (run (Start Work # replicate 59 (IntervalFire 1)) (newTimer oneMinute)))) = 0"
proof -
  let ?t = "run (Start Work # replicate 59 (IntervalFire 1)) (newTimer oneMinute)"
  have a: "sessions (settings (timer (play workEvents (onload oneMinute)))) =
     sessions (settings (timer (onload oneMinute)))"
    using no_session_record_created [of workEvents "onload oneMinute"] by blast
  have "completions (snd (exec (IntervalFire 1) ?t)) =
      (if 1 \<in> set (intervals ?t) \<and> remainingTime ?t \<le> 1 then 1 else 0)"
    using no_session_record_created [of "[]" "onload oneMinute" "IntervalFire 1" ?t] by simp
  then have b: "completions (snd (exec (IntervalFire 1) ?t)) = 1"
    by (simp only: last_second) simp
  have c: "completions (snd (exec Reset ?t)) = 0"
    using no_session_record_created [of "[]" "onload oneMinute" Reset ?t] by simp
  have d: "completions (snd (exec Stop ?t)) = 0"
    using no_session_record_created [of "[]" "onload oneMinute" Stop ?t] by simp
  show ?thesis using a b c d by blast
qed

text \<open>
  C1, against the claim as stated (one record appended per completed interval): after a
  Work interval of one minute has run out, the completion is flagged and counted, and
  \<^verbatim>\<open>settings.sessions\<close> is as empty as when the plugin was loaded.
\<close>

theorem no_session_appended_counterexample:
  "isSessionComplete (play workEvents (onload oneMinute)) \<and>
   state (timer (play workEvents (onload oneMinute))) = Idle \<and>
   completedPomodoros (play workEvents (onload oneMinute)) = 1 \<and>
   sessions (settings (timer (onload oneMinute))) = [] \<and>
   sessions (settings (timer (play workEvents (onload oneMinute)))) = []"
  by (simp add: work_completed) (simp add: onload_def newTimer_def oneMinute_def DEFAULT_SETTINGS_def)

text \<open>
  C2. In every state a run of the engine reaches, when a live interval ticks with at
  most one second remaining, the engine first emits the tick, then stops: it clears the
  interval, becomes idle and zeroes remaining and total time, emitting a tick of (0, 0).
  Only then does it call \<^verbatim>\<open>onTimerComplete()\<close>, once and without arguments, and
  after it \<^verbatim>\<open>onStateChange\<close> with the mode that just finished. The interval's total
  time is an argument of neither, and the getters already return \<open>Idle\<close> and 0 when
  the two callbacks run.
\<close>

theorem countdown_reaches_zero:
  assumes "t = run cs (newTimer s0)" and "h \<in> set (intervals t)" and "remainingTime t \<le> 1"
  shows "snd (intervalFire h t) =
           [\<lparr>notif = OnTick (remainingTime t - 1) (totalTime t), seenState = state t,
              seenRemaining = remainingTime t - 1, seenTotal = totalTime t\<rparr>,
            \<lparr>notif = OnTick 0 0, seenState = Idle, seenRemaining = 0, seenTotal = 0\<rparr>,
            \<lparr>notif = OnTimerComplete, seenState = Idle, seenRemaining = 0, seenTotal = 0\<rparr>,
            \<lparr>notif = OnStateChange (state t), seenState = Idle, seenRemaining = 0,
              seenTotal = 0\<rparr>] \<and>
         state (fst (intervalFire h t)) = Idle \<and>
         remainingTime (fst (intervalFire h t)) = 0 \<and>
         totalTime (fst (intervalFire h t)) = 0 \<and>
         intervalId (fst (intervalFire h t)) = None \<and>
         intervals (fst (intervalFire h t)) = []"
proof -
  have wf: "wellFormed t"
    using assms(1) by (simp add: wellFormed_run wellFormed_newTimer)
  show ?thesis
    using wf assms(2,3)
    by (auto simp: wellFormed_def engine_defs split_beta split: option.splits)
qed

theorem countdown_reaches_zero_witness:
  "1 \<in> set (intervals (run (Start Work # replicate 59 (IntervalFire 1)) (newTimer oneMinute))) \<and>
   remainingTime (run (Start Work # replicate 59 (IntervalFire 1)) (newTimer oneMinute)) \<le> 1 \<and>
   state (run (Start Work # replicate 59 (IntervalFire 1)) (newTimer oneMinute)) = Work \<and>
   state (fst (intervalFire 1
     (run (Start Work # replicate 59 (IntervalFire 1)) (newTimer oneMinute)))) = Idle \<and>
   completions (snd (intervalFire 1
     (run (Start Work # replicate 59 (IntervalFire 1)) (newTimer oneMinute)))) = 1"
proof -
  let ?t = "run (Start Work # replicate 59 (IntervalFire 1)) (newTimer oneMinute)"
  have h: "1 \<in> set (intervals ?t)" and r: "remainingTime ?t \<le> 1" and w: "state ?t = Work"
    by (simp_all only: last_second) simp_all
  note th = countdown_reaches_zero [OF refl h r]
  from th have i: "state (fst (intervalFire 1 ?t)) = Idle"
    by blast
  from th have "snd (intervalFire 1 ?t) =
           [\<lparr>notif = OnTick (remainingTime ?t - 1) (totalTime ?t), seenState = state ?t,
              seenRemaining = remainingTime ?t - 1, seenTotal = totalTime ?t\<rparr>,
            \<lparr>notif = OnTick 0 0, seenState = Idle, seenRemaining = 0, seenTotal = 0\<rparr>,
            \<lparr>notif = OnTimerComplete, seenState = Idle, seenRemaining = 0, seenTotal = 0\<rparr>,
            \<lparr>notif = OnStateChange (state ?t), seenState = Idle, seenRemaining = 0,
              seenTotal = 0\<rparr>]"
    by blast
  then have c: "completions (snd (intervalFire 1 ?t)) = 1"
    by (simp only: completions_def) simp
  show ?thesis
    using h r w i c by blast
qed

text \<open>
  C2, against the claim as stated (one completion notification carrying the mode and
  its total seconds, emitted before the transition to idle): the last tick of a Work
  interval of one minute. The four callbacks, the state and the total time each of
  them can read: the duration 60 is gone before \<^verbatim>\<open>onTimerComplete()\<close> runs.
\<close>

theorem completion_notification_counterexample:
  "map notif (snd (intervalFire 1
      (run (Start Work # replicate 59 (IntervalFire 1)) (newTimer oneMinute)))) =
     [OnTick 0 60, OnTick 0 0, OnTimerComplete, OnStateChange Work] \<and>
   map seenState (snd (intervalFire 1
      (run (Start Work # replicate 59 (IntervalFire 1)) (newTimer oneMinute)))) =
     [Work, Idle, Idle, Idle] \<and>
   map seenTotal (snd (intervalFire 1
      (run (Start Work # replicate 59 (IntervalFire 1)) (newTimer oneMinute)))) =
     [60, 0, 0, 0] \<and>
   getTotalTime (fst (intervalFire 1
      (run (Start Work # replicate 59 (IntervalFire 1)) (newTimer oneMinute)))) = 0"
  by (simp only: last_second) (simp add: engine_defs getTotalTime_def)

text \<open>
  C3. The 10000 ms callback calls \<^verbatim>\<open>acknowledgeSessionComplete()\<close> without
  testing \<^verbatim>\<open>isSessionComplete\<close>, unlike the 1000 ms callback. A Work interval of
  one minute runs out (next mode: short break). If the user then resets, the session is
  no longer awaiting acknowledgment and the mode is still Work; when the timeout comes
  due it moves the mode to the short break. If the user instead acknowledges with a
  click (the mode becomes the short break) and clicks the mode label (long break), the
  timeout sets the mode to the next mode a second time: back to the short break.
  The 1000 ms callback in the same place, after a reset with \<^verbatim>\<open>autoStartBreaks\<close>
  on, changes nothing: it is spent and that is all.
\<close>

theorem stale_ack_timeout_changes_mode:
  "isSessionComplete (play (workEvents @ [ResetClick]) (onload oneMinute)) = False \<and>
   currentMode (play (workEvents @ [ResetClick]) (onload oneMinute)) = Work \<and>
   currentMode (play (workEvents @ [ResetClick, AckTimeout]) (onload oneMinute)) = ShortBreak \<and>
   isSessionComplete (play (workEvents @ [PauseResumeClick, CycleModeClick]) (onload oneMinute)) = False \<and>
   currentMode (play (workEvents @ [PauseResumeClick]) (onload oneMinute)) = ShortBreak \<and>
   currentMode (play (workEvents @ [PauseResumeClick, CycleModeClick]) (onload oneMinute)) = LongBreak \<and>
   currentMode (play (workEvents @ [PauseResumeClick, CycleModeClick, AckTimeout]) (onload oneMinute))
     = ShortBreak \<and>
   play (workEvents @ [ResetClick, AutoStartTimeout]) (onload (oneMinute\<lparr>autoStartBreaks := True\<rparr>))
     = (play (workEvents @ [ResetClick]) (onload (oneMinute\<lparr>autoStartBreaks := True\<rparr>)))
         \<lparr>autoStartTimeouts := 0\<rparr>"
  by (simp add: play_append work_completed work_completed_autostart)
     (simp add: plugin_defs engine_defs callTimer_def isRunning_def getState_def getModeText_def)

text \<open>
  C4. \<^verbatim>\<open>start\<close> has no guard against an active countdown. In every state a run of
  the engine reaches that is not idle and has time remaining, \<^verbatim>\<open>start(m)\<close> with any
  of the three modes, the active one or another, is accepted: the state becomes \<open>m\<close>,
  the old interval is cleared and a new one begun, one tick is emitted, and remaining
  time, total time, the remembered pre-pause state and the settings stay as they were.
  From the paused state this is how \<^verbatim>\<open>resume()\<close> restarts the countdown.
\<close>

theorem start_while_active_overrides:
  assumes "t = run cs (newTimer s0)" and "state t \<noteq> Idle" and "remainingTime t \<noteq> 0"
    and "m = Work \<or> m = ShortBreak \<or> m = LongBreak"
  shows "fst (start m t) =
           t\<lparr>state := m, intervalId := Some (nextHandle t), intervals := [nextHandle t],
             nextHandle := Suc (nextHandle t)\<rparr> \<and>
         snd (start m t) =
           [\<lparr>notif = OnTick (remainingTime t) (totalTime t), seenState = m,
             seenRemaining = remainingTime t, seenTotal = totalTime t\<rparr>]"
proof -
  have wf: "wellFormed t"
    using assms(1) by (simp add: wellFormed_run wellFormed_newTimer)
  show ?thesis
    using wf assms(2-4)
    by (auto simp: wellFormed_def engine_defs split: option.splits)
qed

theorem start_while_active_overrides_witness:
  "state (run [Start Work, IntervalFire 1] (newTimer DEFAULT_SETTINGS)) = Work \<and>
   remainingTime (run [Start Work, IntervalFire 1] (newTimer DEFAULT_SETTINGS)) = 1499 \<and>
   state (fst (start LongBreak (run [Start Work, IntervalFire 1] (newTimer DEFAULT_SETTINGS))))
     = LongBreak \<and>
   remainingTime (fst (start LongBreak (run [Start Work, IntervalFire 1] (newTimer DEFAULT_SETTINGS))))
     = 1499 \<and>
   totalTime (fst (start LongBreak (run [Start Work, IntervalFire 1] (newTimer DEFAULT_SETTINGS))))
     = 1500"
proof -
  let ?t = "run [Start Work, IntervalFire 1] (newTimer DEFAULT_SETTINGS)"
  have v: "state ?t = Work \<and> remainingTime ?t = 1499 \<and> totalTime ?t = 1500"
    by (simp add: newTimer_def DEFAULT_SETTINGS_def engine_defs)
  have s: "state ?t \<noteq> Idle" and r: "remainingTime ?t \<noteq> 0"
    using v by simp_all
  have m: "LongBreak = Work \<or> LongBreak = ShortBreak \<or> LongBreak = LongBreak" by simp
  have "fst (start LongBreak ?t) =
           ?t\<lparr>state := LongBreak, intervalId := Some (nextHandle ?t), intervals := [nextHandle ?t],
             nextHandle := Suc (nextHandle ?t)\<rparr>"
    using start_while_active_overrides [OF refl s r m] by blast
  then have "state (fst (start LongBreak ?t)) = LongBreak \<and>
       remainingTime (fst (start LongBreak ?t)) = remainingTime ?t \<and>
       totalTime (fst (start LongBreak ?t)) = totalTime ?t"
    by (simp only:) simp
  then show ?thesis using v by simp
qed

text \<open>
  C4, against the claim as stated (a different mode is rejected, the same mode is a
  no-op): \<^verbatim>\<open>start(ShortBreak)\<close> while Work is running turns the state into
  ShortBreak, and \<^verbatim>\<open>start(Work)\<close> while Work is paused sets the countdown going
  again on a new interval.
\<close>

theorem start_while_active_counterexample:
  "state (run [Start Work] (newTimer DEFAULT_SETTINGS)) = Work \<and>
   state (fst (start ShortBreak (run [Start Work] (newTimer DEFAULT_SETTINGS)))) = ShortBreak \<and>
   state (run [Start Work, Pause] (newTimer DEFAULT_SETTINGS)) = Paused \<and>
   state (fst (start Work (run [Start Work, Pause] (newTimer DEFAULT_SETTINGS)))) = Work \<and>
   intervals (run [Start Work, Pause] (newTimer DEFAULT_SETTINGS)) = [] \<and>
   intervals (fst (start Work (run [Start Work, Pause] (newTimer DEFAULT_SETTINGS)))) = [2]"
  by (simp add: newTimer_def DEFAULT_SETTINGS_def engine_defs)

text \<open>
  C5. A Work interval that the engine completes is not always counted.
  \<^verbatim>\<open>advanceToNextMode\<close> takes the completed mode from the plugin's
  \<^verbatim>\<open>currentMode\<close>, and the unguarded 10000 ms callback of C3 can change
  \<^verbatim>\<open>currentMode\<close> under a paused countdown. With the long-break interval at 4: a
  Work interval runs out (count 1) and the user resets, starts Work again and pauses;
  the timeout of the first completion comes due and sets the current mode to the short
  break; the user resumes and the engine counts Work down to its last second. The
  completing tick then leaves the count at 1 and makes Work the next mode, announced as
  a short break, where the second completed Work interval calls for count 2 and the
  short break. Without the late timeout the same events give exactly that.
\<close>

theorem work_completion_not_counted:
  "state (timer (play staleEvents (onload oneMinute))) = Work \<and>
   remainingTime (timer (play staleEvents (onload oneMinute))) = 1 \<and>
   intervals (timer (play staleEvents (onload oneMinute))) = [3] \<and>
   longBreakInterval (settings (timer (play staleEvents (onload oneMinute)))) = 4 \<and>
   currentMode (play staleEvents (onload oneMinute)) = ShortBreak \<and>
   completedPomodoros (play staleEvents (onload oneMinute)) = 1 \<and>
   state (timer (play (staleEvents @ [Tick 3]) (onload oneMinute))) = Idle \<and>
   isSessionComplete (play (staleEvents @ [Tick 3]) (onload oneMinute)) \<and>
   completedPomodoros (play (staleEvents @ [Tick 3]) (onload oneMinute)) = 1 \<and>
   nextMode (play (staleEvents @ [Tick 3]) (onload oneMinute)) = Work \<and>
   notices (play (staleEvents @ [Tick 3]) (onload oneMinute)) =
     [''Focus session completed!'', ''Short Break session completed!''] \<and>
   completedPomodoros
     (play ((workEvents @ [ResetClick, PauseResumeClick, Tick 2, PauseResumeClick,
               PauseResumeClick] @ replicate 58 (Tick 3)) @ [Tick 3]) (onload oneMinute)) = 2 \<and>
   nextMode
     (play ((workEvents @ [ResetClick, PauseResumeClick, Tick 2, PauseResumeClick,
               PauseResumeClick] @ replicate 58 (Tick 3)) @ [Tick 3]) (onload oneMinute))
     = ShortBreak"
  by (simp only: play_append [of _ "[Tick 3]"] stale_last_second timely_last_second)
     (simp add: plugin_defs engine_defs callTimer_def getModeText_def jsRem_def
        oneMinute_def DEFAULT_SETTINGS_def)

text \<open>
  C6. While a session awaits acknowledgment, a click on the mode label acknowledges
  if the engine is idle: the flag is cleared, the current mode becomes the next mode,
  nothing is cycled and no notice is shown. If the engine is not idle, the guard at the
  top of the handler comes first: the click is turned down with the notice
  ``Reset the timer to switch modes'' and changes nothing else, the flag included.
\<close>

theorem cycleMode_while_awaiting:
  assumes "isSessionComplete p"
  shows "(getState (timer p) = Idle \<longrightarrow>
            handleCycleModeClick p = p\<lparr>isSessionComplete := False, currentMode := nextMode p\<rparr>) \<and>
         (getState (timer p) \<noteq> Idle \<longrightarrow>
            handleCycleModeClick p =
              p\<lparr>notices := notices p @ [''Reset the timer to switch modes'']\<rparr>)"
  using assms
  by (simp add: handleCycleModeClick_def acknowledgeSessionComplete_def isRunning_def
      getState_def Let_def)

theorem cycleMode_while_awaiting_witness:
  "isSessionComplete (play workEvents (onload oneMinute)) \<and>
   getState (timer (play workEvents (onload oneMinute))) = Idle \<and>
   currentMode (play workEvents (onload oneMinute)) = Work \<and>
   nextMode (play workEvents (onload oneMinute)) = ShortBreak \<and>
   currentMode (handleCycleModeClick (play workEvents (onload oneMinute))) = ShortBreak \<and>
   isSessionComplete (handleCycleModeClick (play workEvents (onload oneMinute))) = False \<and>
   notices (handleCycleModeClick (play workEvents (onload oneMinute))) =
     notices (play workEvents (onload oneMinute))"
proof -
  let ?p = "play workEvents (onload oneMinute)"
  have c: "isSessionComplete ?p" and i: "getState (timer ?p) = Idle"
    and m: "currentMode ?p = Work" and n: "nextMode ?p = ShortBreak"
    by (simp_all add: work_completed getState_def)
  have "handleCycleModeClick ?p = ?p\<lparr>isSessionComplete := False, currentMode := nextMode ?p\<rparr>"
    using cycleMode_while_awaiting [OF c] i by blast
  then have "currentMode (handleCycleModeClick ?p) = nextMode ?p \<and>
      isSessionComplete (handleCycleModeClick ?p) = False \<and>
      notices (handleCycleModeClick ?p) = notices ?p"
    by (simp only:) simp
  then show ?thesis
    using c i m n by simp
qed

text \<open>
  C6, against the claim as stated (every such click acknowledges and none is turned
  down): with \<^verbatim>\<open>autoStartBreaks\<close> on, a Work interval runs out and the 1000 ms
  callback starts the break, leaving \<^verbatim>\<open>isSessionComplete\<close> set. A click on the mode
  label is now turned down with the notice, and the session still awaits
  acknowledgment.
\<close>

theorem cycleMode_after_autostart_counterexample:
  "isSessionComplete (play (workEvents @ [AutoStartTimeout]) (onload (oneMinute\<lparr>autoStartBreaks := True\<rparr>))) \<and>
   state (timer (play (workEvents @ [AutoStartTimeout]) (onload (oneMinute\<lparr>autoStartBreaks := True\<rparr>))))
     = ShortBreak \<and>
   isSessionComplete (play (workEvents @ [AutoStartTimeout, CycleModeClick])
     (onload (oneMinute\<lparr>autoStartBreaks := True\<rparr>))) \<and>
   notices (play (workEvents @ [AutoStartTimeout, CycleModeClick])
     (onload (oneMinute\<lparr>autoStartBreaks := True\<rparr>))) =
     [''Focus session completed!'', ''Reset the timer to switch modes'']"
  by (simp add: play_append work_completed_autostart)
     (simp add: plugin_defs engine_defs callTimer_def isRunning_def getState_def)

text \<open>
  C7. Take any run of the engine from a new timer in which every settings value ever
  installed has positive durations, let \<open>t\<close> be the state it reaches and \<open>t'\<close> the state
  after one more command \<open>c\<close>. Then the remaining time of \<open>t\<close> lies between 0 and the total
  time; both are 0 exactly when \<open>t\<close> is idle; if the engine is running before and
  after \<open>c\<close> the remaining time has not grown; if it is paused before and after \<open>c\<close> the
  remaining time is the same; the remaining time grows only when \<open>c\<close> is a start issued
  in the idle state, and then it equals the total time; and \<^verbatim>\<open>pause()\<close> followed by
  \<^verbatim>\<open>resume()\<close> leaves remaining and total time as they were.
\<close>

theorem remaining_time_invariant:
  assumes "positive s0" and "\<forall>c\<in>set cs. positiveCommand c"
    and "t = run cs (newTimer s0)" and "t' = fst (exec c t)"
  shows "0 \<le> remainingTime t \<and> remainingTime t \<le> totalTime t \<and>
         ((remainingTime t = 0 \<and> totalTime t = 0) = (state t = Idle)) \<and>
         (isRunning t \<and> isRunning t' \<longrightarrow> remainingTime t' \<le> remainingTime t) \<and>
         (state t = Paused \<and> state t' = Paused \<longrightarrow> remainingTime t' = remainingTime t) \<and>
         (remainingTime t < remainingTime t' \<longrightarrow>
            state t = Idle \<and> (\<exists>m. c = Start m \<and> state t' = m) \<and>
            remainingTime t' = totalTime t') \<and>
         remainingTime (fst (resume (fst (pause t)))) = remainingTime t \<and>
         totalTime (fst (resume (fst (pause t)))) = totalTime t"
proof -
  have wf: "wellFormed t"
    using assms(3) by (simp add: wellFormed_run wellFormed_newTimer)
  have cn: "counting t"
    using assms(1-3) by (simp add: counting_run counting_newTimer wellFormed_newTimer)
  have nonneg: "0 \<le> remainingTime t"
    using wf cn by (cases "state t = Idle") (auto simp: counting_def wellFormed_def)
  have le: "remainingTime t \<le> totalTime t"
    using cn by (simp add: counting_def)
  show ?thesis
    using nonneg le idle_iff_zero [OF wf cn]
      remaining_nonincreasing_running [OF wf cn, of c]
      remaining_constant_paused [OF wf, of c]
      remaining_increase_fresh_start [OF wf cn, of c]
      pause_resume_keeps_time [OF wf cn]
    unfolding assms(4) by blast
qed

theorem remaining_time_invariant_witness:
  "positive DEFAULT_SETTINGS \<and>
   positiveCommand (Start Work) \<and> positiveCommand (IntervalFire 1) \<and> positiveCommand Pause \<and>
   remainingTime (run [Start Work, IntervalFire 1, Pause] (newTimer DEFAULT_SETTINGS)) = 1499 \<and>
   totalTime (run [Start Work, IntervalFire 1, Pause] (newTimer DEFAULT_SETTINGS)) = 1500 \<and>
   state (run [Start Work, IntervalFire 1, Pause] (newTimer DEFAULT_SETTINGS)) = Paused \<and>
   remainingTime (fst (resume (fst (pause
      (run [Start Work, IntervalFire 1, Pause] (newTimer DEFAULT_SETTINGS)))))) = 1499 \<and>
   remainingTime (run [Start Work, IntervalFire 1, Pause] (newTimer DEFAULT_SETTINGS))
     \<le> totalTime (run [Start Work, IntervalFire 1, Pause] (newTimer DEFAULT_SETTINGS))"
proof -
  let ?t = "run [Start Work, IntervalFire 1, Pause] (newTimer DEFAULT_SETTINGS)"
  have p: "positive DEFAULT_SETTINGS"
    by (simp add: positive_def DEFAULT_SETTINGS_def)
  have c: "\<forall>c\<in>set [Start Work, IntervalFire 1, Pause]. positiveCommand c"
    by simp
  have le: "remainingTime ?t \<le> totalTime ?t"
    using remaining_time_invariant [OF p c refl refl, of Resume] by blast
  have vals: "remainingTime ?t = 1499 \<and> totalTime ?t = 1500 \<and> state ?t = Paused \<and>
              remainingTime (fst (resume (fst (pause ?t)))) = 1499"
    by (simp add: newTimer_def DEFAULT_SETTINGS_def engine_defs)
  show ?thesis
    using p le vals by simp
qed

text \<open>
  C8. In every idle state that a run of the engine reaches, whatever settings the run
  has installed, \<^verbatim>\<open>start(m)\<close> for each of the three modes sets total and remaining
  time to the minutes configured for \<open>m\<close> times 60 and makes the state \<open>m\<close>, which
  counts as running, with one new live interval.
\<close>

theorem start_from_idle:
  assumes "t = run cs (newTimer s0)" and "state t = Idle"
    and "m = Work \<or> m = ShortBreak \<or> m = LongBreak"
  shows "totalTime (fst (start m t)) = configuredMinutes (settings t) m * 60 \<and>
         remainingTime (fst (start m t)) = configuredMinutes (settings t) m * 60 \<and>
         state (fst (start m t)) = m \<and> isRunning (fst (start m t)) \<and>
         intervalId (fst (start m t)) = Some (nextHandle t) \<and>
         intervals (fst (start m t)) = [nextHandle t]"
proof -
  have wf: "wellFormed t"
    using assms(1) by (simp add: wellFormed_run wellFormed_newTimer)
  show ?thesis
    using wf assms(2,3)
    by (auto simp: wellFormed_def isRunning_def configuredMinutes_def engine_defs)
qed

theorem start_from_idle_witness:
  "state (run [Start ShortBreak, Stop, UpdateSettings (DEFAULT_SETTINGS\<lparr>workTime := 50\<rparr>)]
      (newTimer DEFAULT_SETTINGS)) = Idle \<and>
   totalTime (fst (start Work
     (run [Start ShortBreak, Stop, UpdateSettings (DEFAULT_SETTINGS\<lparr>workTime := 50\<rparr>)]
      (newTimer DEFAULT_SETTINGS)))) = 3000 \<and>
   remainingTime (fst (start Work
     (run [Start ShortBreak, Stop, UpdateSettings (DEFAULT_SETTINGS\<lparr>workTime := 50\<rparr>)]
      (newTimer DEFAULT_SETTINGS)))) = 3000 \<and>
   state (fst (start Work
     (run [Start ShortBreak, Stop, UpdateSettings (DEFAULT_SETTINGS\<lparr>workTime := 50\<rparr>)]
      (newTimer DEFAULT_SETTINGS)))) = Work"
proof -
  let ?t = "run [Start ShortBreak, Stop, UpdateSettings (DEFAULT_SETTINGS\<lparr>workTime := 50\<rparr>)]
      (newTimer DEFAULT_SETTINGS)"
  have i: "state ?t = Idle"
    by (simp add: newTimer_def engine_defs)
  have s: "configuredMinutes (settings ?t) Work = 50"
    by (simp add: newTimer_def engine_defs configuredMinutes_def)
  have m: "Work = Work \<or> Work = ShortBreak \<or> Work = LongBreak" by simp
  show ?thesis
    using i start_from_idle [OF refl i m] by (simp only: s) simp
qed

text \<open>
  C9. \<^verbatim>\<open>updateSettings\<close> checks nothing. For every settings value, one with a
  non-positive duration or interval included, and in every state of the engine, idle,
  running or paused, the engine afterwards holds the value supplied; the call changes
  no other field (state, remaining time, total time and the interval stay as they
  were) and emits nothing. The next start from the idle state counts from the supplied
  minutes times 60, positive or not.
\<close>

theorem updateSettings_replaces:
  "fst (updateSettings s t) = t\<lparr>settings := s\<rparr> \<and>
   snd (updateSettings s t) = [] \<and>
   settings (fst (updateSettings s t)) = s \<and>
   state (fst (updateSettings s t)) = state t \<and>
   prePauseState (fst (updateSettings s t)) = prePauseState t \<and>
   remainingTime (fst (updateSettings s t)) = remainingTime t \<and>
   totalTime (fst (updateSettings s t)) = totalTime t \<and>
   intervalId (fst (updateSettings s t)) = intervalId t \<and>
   intervals (fst (updateSettings s t)) = intervals t \<and>
   ((m = Work \<or> m = ShortBreak \<or> m = LongBreak) \<and> state t = Idle \<and> remainingTime t = 0 \<longrightarrow>
      remainingTime (fst (start m (fst (updateSettings s t)))) = configuredMinutes s m * 60 \<and>
      totalTime (fst (start m (fst (updateSettings s t)))) = configuredMinutes s m * 60)"
  by (auto simp: engine_defs configuredMinutes_def split: option.splits)

theorem updateSettings_replaces_witness:
  "state (run [Start Work, IntervalFire 1] (newTimer DEFAULT_SETTINGS)) = Work \<and>
   remainingTime (run [Start Work, IntervalFire 1] (newTimer DEFAULT_SETTINGS)) = 1499 \<and>
   totalTime (run [Start Work, IntervalFire 1] (newTimer DEFAULT_SETTINGS)) = 1500 \<and>
   settings (fst (updateSettings (DEFAULT_SETTINGS\<lparr>workTime := - 5\<rparr>)
     (run [Start Work, IntervalFire 1] (newTimer DEFAULT_SETTINGS))))
     = DEFAULT_SETTINGS\<lparr>workTime := - 5\<rparr> \<and>
   state (fst (updateSettings (DEFAULT_SETTINGS\<lparr>workTime := - 5\<rparr>)
     (run [Start Work, IntervalFire 1] (newTimer DEFAULT_SETTINGS)))) = Work \<and>
   remainingTime (fst (updateSettings (DEFAULT_SETTINGS\<lparr>workTime := - 5\<rparr>)
     (run [Start Work, IntervalFire 1] (newTimer DEFAULT_SETTINGS)))) = 1499 \<and>
   totalTime (fst (updateSettings (DEFAULT_SETTINGS\<lparr>workTime := - 5\<rparr>)
     (run [Start Work, IntervalFire 1] (newTimer DEFAULT_SETTINGS)))) = 1500 \<and>
   state (newTimer DEFAULT_SETTINGS) = Idle \<and> remainingTime (newTimer DEFAULT_SETTINGS) = 0 \<and>
   remainingTime (fst (start Work (fst (updateSettings (DEFAULT_SETTINGS\<lparr>workTime := - 5\<rparr>)
     (newTimer DEFAULT_SETTINGS))))) = - 300"
proof -
  let ?s = "DEFAULT_SETTINGS\<lparr>workTime := - 5\<rparr>"
  let ?r = "run [Start Work, IntervalFire 1] (newTimer DEFAULT_SETTINGS)"
  let ?t = "newTimer DEFAULT_SETTINGS"
  have v: "state ?r = Work \<and> remainingTime ?r = 1499 \<and> totalTime ?r = 1500"
    by (simp add: newTimer_def DEFAULT_SETTINGS_def engine_defs)
  have i: "state ?t = Idle" and r: "remainingTime ?t = 0"
    by (simp_all add: newTimer_def)
  note running = updateSettings_replaces [of ?s ?r Work]
  from running have a: "settings (fst (updateSettings ?s ?r)) = ?s"
    by blast
  from running have b: "state (fst (updateSettings ?s ?r)) = state ?r \<and>
      remainingTime (fst (updateSettings ?s ?r)) = remainingTime ?r \<and>
      totalTime (fst (updateSettings ?s ?r)) = totalTime ?r"
    by blast
  note idle = updateSettings_replaces [of ?s ?t Work]
  from idle i r have "remainingTime (fst (start Work (fst (updateSettings ?s ?t)))) =
      configuredMinutes ?s Work * 60"
    by blast
  then have c: "remainingTime (fst (start Work (fst (updateSettings ?s ?t)))) = - 300"
    by (simp only:) (simp add: configuredMinutes_def)
  show ?thesis
    using v a b i r c by simp
qed

text \<open>
  C9, against the claim as stated (a non-positive duration is rejected and the old
  settings kept): an update with \<^verbatim>\<open>workTime = 0\<close> replaces the default settings.
\<close>

theorem updateSettings_unchecked_counterexample:
  "settings (fst (updateSettings (DEFAULT_SETTINGS\<lparr>workTime := 0\<rparr>) (newTimer DEFAULT_SETTINGS)))
     \<noteq> settings (newTimer DEFAULT_SETTINGS) \<and>
   workTime (settings (fst (updateSettings (DEFAULT_SETTINGS\<lparr>workTime := 0\<rparr>)
     (newTimer DEFAULT_SETTINGS)))) = 0"
  by (simp add: updateSettings_def newTimer_def DEFAULT_SETTINGS_def)

text \<open>
  C10. In every state of the engine, \<^verbatim>\<open>start(TimerState.Idle)\<close> and
  \<^verbatim>\<open>start(TimerState.Paused)\<close> return at once: the whole state, the interval
  included, is unchanged and no callback is called.
\<close>

theorem start_Idle_Paused_noop:
  "start Idle t = (t, []) \<and> start Paused t = (t, [])"
  by (simp add: start_def)

theorem start_Idle_Paused_noop_witness:
  "start Idle (run [Start Work, IntervalFire 1] (newTimer DEFAULT_SETTINGS)) =
     (run [Start Work, IntervalFire 1] (newTimer DEFAULT_SETTINGS), []) \<and>
   start Paused (run [Start Work, Pause] (newTimer DEFAULT_SETTINGS)) =
     (run [Start Work, Pause] (newTimer DEFAULT_SETTINGS), [])"
  using start_Idle_Paused_noop [of "run [Start Work, IntervalFire 1] (newTimer DEFAULT_SETTINGS)"]
    start_Idle_Paused_noop [of "run [Start Work, Pause] (newTimer DEFAULT_SETTINGS)"]
  by blast

end
